theory Spec2Isabelle
  imports Complex_Main
begin

unbundle bit_operations_syntax

section \<open>Road network builder: edge annotation and SQL serialisation\<close>

text \<open>
  A shallow embedding of \<^verbatim>\<open>gridtracer/data/imports/osm/road_network_builder.py\<close>
  (class \<^verbatim>\<open>RoadNetworkBuilder\<close>): the flag packer \<^verbatim>\<open>_flags_to_int\<close>, the tag resolver
  \<^verbatim>\<open>_resolve_way_tags\<close>, the mask filter \<^verbatim>\<open>_is_way_allowed_by_final_mask\<close>, the first
  loop of \<^verbatim>\<open>_process_and_write_edges\<close> (classification, filtering, costs), the display
  name of its second loop, and the chunking loop of \<^verbatim>\<open>build_network\<close>.

  Conventions of the model.
  \<^item> A Python \<^verbatim>\<open>str\<close> is a \<^typ>\<open>string\<close>; a \<^typ>\<open>char\<close> stands for the code point of
    the same number, so the model covers the strings whose code points are below 256.
  \<^item> A Python \<^verbatim>\<open>int\<close> is an \<^typ>\<open>int\<close>. A Python \<^verbatim>\<open>float\<close> is a real number or
    the value NaN: rounding, overflow and the infinities are not modelled.
  \<^item> A Python \<^verbatim>\<open>set\<close> of strings is the list of its elements in the order in which the
    interpreter iterates over it; membership and disjointness go through \<^const>\<open>set\<close>.
  \<^item> A Python \<^verbatim>\<open>dict\<close> with string keys is an association list read with
    \<^const>\<open>map_of\<close>; \<^verbatim>\<open>d.update(e)\<close> puts the pairs of \<open>e\<close> in front.
  \<^item> An exception is a value \<open>Inl e\<close> of a sum type.
\<close>

subsection \<open>Python values\<close>

datatype py_error = TypeError | IndexError

datatype pyfloat = Fl real | NaN

text \<open>A scalar attribute value of an edge row, and an attribute that may be a list of them
  (the graph simplification merges the attributes of parallel segments into lists).\<close>

datatype scalar = PNone | PBool bool | PInt int | PFloat pyfloat | PStr string

datatype attr = Sc scalar | Ls "scalar list"

text \<open>Truth value of a Python object (\<^verbatim>\<open>bool(x)\<close>): NaN is a non-zero float.\<close>

fun truthy_scalar :: "scalar \<Rightarrow> bool" where
  "truthy_scalar PNone = False"
| "truthy_scalar (PBool b) = b"
| "truthy_scalar (PInt i) = (i \<noteq> 0)"
| "truthy_scalar (PFloat (Fl r)) = (r \<noteq> 0)"
| "truthy_scalar (PFloat NaN) = True"
| "truthy_scalar (PStr s) = (s \<noteq> [])"

fun truthy :: "attr \<Rightarrow> bool" where
  "truthy (Sc s) = truthy_scalar s"
| "truthy (Ls xs) = (xs \<noteq> [])"

text \<open>\<^verbatim>\<open>pd.notna(x)\<close> on a scalar: false for \<^verbatim>\<open>None\<close> and NaN.\<close>

fun notna :: "scalar \<Rightarrow> bool" where
  "notna PNone = False"
| "notna (PFloat NaN) = False"
| "notna _ = True"

text \<open>\<^verbatim>\<open>x == 0\<close>: booleans and numbers compare by value, everything else is unequal.\<close>

fun eq_zero :: "scalar \<Rightarrow> bool" where
  "eq_zero (PBool b) = (\<not> b)"
| "eq_zero (PInt i) = (i = 0)"
| "eq_zero (PFloat (Fl r)) = (r = 0)"
| "eq_zero _ = False"

text \<open>\<^verbatim>\<open>x / 1000.0\<close>: true division by a float; \<^verbatim>\<open>None\<close> and strings raise.\<close>

fun truediv :: "scalar \<Rightarrow> real \<Rightarrow> py_error + pyfloat" where
  "truediv (PBool b) d = Inr (Fl ((if b then 1 else 0) / d))"
| "truediv (PInt i) d = Inr (Fl (real_of_int i / d))"
| "truediv (PFloat (Fl r)) d = Inr (Fl (r / d))"
| "truediv (PFloat NaN) d = Inr NaN"
| "truediv PNone d = Inl TypeError"
| "truediv (PStr s) d = Inl TypeError"

fun fdiv :: "pyfloat \<Rightarrow> real \<Rightarrow> pyfloat" where
  "fdiv (Fl x) d = Fl (x / d)"
| "fdiv NaN d = NaN"

fun fmul :: "pyfloat \<Rightarrow> real \<Rightarrow> pyfloat" where
  "fmul (Fl x) d = Fl (x * d)"
| "fmul NaN d = NaN"

subsection \<open>Strings\<close>

definition digit_char :: "nat \<Rightarrow> char" where
  "digit_char n = char_of (48 + n)"

function str_nat :: "nat \<Rightarrow> string" where
  "str_nat n = (if n < 10 then [digit_char n] else str_nat (n div 10) @ [digit_char (n mod 10)])"
  by pat_completeness auto
termination
  by (relation "measure (\<lambda>n. n)") auto

definition str_int :: "int \<Rightarrow> string" where
  "str_int i = (if i < 0 then CHR ''-'' # str_nat (nat (- i)) else str_nat (nat i))"

text \<open>
  \<^verbatim>\<open>str(x)\<close> on a scalar. The decimal representation that Python prints for a finite
  float is not computed here: it is the parameter \<open>float_repr\<close>, and every theorem holds
  for any such function.
\<close>

fun py_str :: "(real \<Rightarrow> string) \<Rightarrow> scalar \<Rightarrow> string" where
  "py_str float_repr PNone = ''None''"
| "py_str float_repr (PBool b) = (if b then ''True'' else ''False'')"
| "py_str float_repr (PInt i) = str_int i"
| "py_str float_repr (PFloat (Fl r)) = float_repr r"
| "py_str float_repr (PFloat NaN) = ''nan''"
| "py_str float_repr (PStr s) = s"

text \<open>\<^verbatim>\<open>str.lower()\<close> on code points below 256: A-Z and the Latin-1 capitals.\<close>

definition lower_char :: "char \<Rightarrow> char" where
  "lower_char c =
     (let n = (of_char c :: nat)
      in if (65 \<le> n \<and> n \<le> 90) \<or> (192 \<le> n \<and> n \<le> 222 \<and> n \<noteq> 215)
         then char_of (n + 32) else c)"

definition lower :: "string \<Rightarrow> string" where
  "lower s = map lower_char s"

text \<open>\<^verbatim>\<open>str.isspace()\<close> on one code point below 256, and \<^verbatim>\<open>str.strip()\<close>.\<close>

definition isspace :: "char \<Rightarrow> bool" where
  "isspace c =
     (let n = (of_char c :: nat)
      in (9 \<le> n \<and> n \<le> 13) \<or> (28 \<le> n \<and> n \<le> 32) \<or> n = 133 \<or> n = 160)"

definition strip :: "string \<Rightarrow> string" where
  "strip s = rev (dropWhile isspace (rev (dropWhile isspace s)))"

text \<open>\<^verbatim>\<open>s.split(',')\<close>: the pieces between commas; always at least one piece.\<close>

fun split_comma :: "string \<Rightarrow> string list" where
  "split_comma [] = [[]]"
| "split_comma (c # cs) =
     (if c = CHR '','' then [] # split_comma cs
      else (case split_comma cs of [] \<Rightarrow> [[c]] | w # ws \<Rightarrow> (c # w) # ws))"

subsection \<open>Configuration\<close>

text \<open>
  One entry of \<^verbatim>\<open>config['way_tag_resolver']['tags']\<close>. A key that the entry does not
  have is \<open>None\<close>; the code reads each with \<^verbatim>\<open>cfg.get(key, default)\<close>.
\<close>

record rule =
  rule_clazz :: "int option"
  rule_maxspeed :: "int option"
  rule_flags :: "string list option"

text \<open>
  The section \<^verbatim>\<open>way_tag_resolver\<close> of the configuration. \<open>way_tag_config\<close> is the table
  under \<^verbatim>\<open>'tags'\<close> (empty when the key is missing); \<open>final_mask\<close> is \<open>None\<close> when the key
  is missing or holds \<^verbatim>\<open>None\<close>; \<open>flag_list\<close> is \<open>None\<close> when the key is missing.
\<close>

record config =
  way_tag_config :: "(string \<times> rule) list"
  final_mask :: "string option"
  flag_list :: "string list option"

subsection \<open>\<^verbatim>\<open>_flags_to_int\<close>\<close>

definition get_flag_list :: "config \<Rightarrow> string list" where
  "get_flag_list cfg =
     (case flag_list cfg of None \<Rightarrow> [''car'', ''bike'', ''foot''] | Some fl \<Rightarrow> fl)"

text \<open>\<^verbatim>\<open>{flag: 1 << i for i, flag in enumerate(flag_list)}\<close>: a later entry of the same
  name replaces an earlier one.\<close>

definition flag_bitmask :: "string list \<Rightarrow> (string \<rightharpoonup> int)" where
  "flag_bitmask fl =
     fold (\<lambda>(i, flag) m. m(flag \<mapsto> push_bit i 1)) (enumerate 0 fl) Map.empty"

definition bitmask_get :: "(string \<rightharpoonup> int) \<Rightarrow> string \<Rightarrow> int" where
  "bitmask_get bm flag = (case bm flag of None \<Rightarrow> 0 | Some b \<Rightarrow> b)"

text \<open>The loop \<^verbatim>\<open>for flag in flags_set: mask |= flag_bitmask.get(flag, 0)\<close>; the guard
  \<^verbatim>\<open>if flags_set\<close> skips it for the empty set.\<close>

definition flags_to_int :: "config \<Rightarrow> string list \<Rightarrow> int" where
  "flags_to_int cfg flags_set =
     (let bm = flag_bitmask (get_flag_list cfg)
      in if flags_set \<noteq> []
         then fold (\<lambda>flag acc. acc OR bitmask_get bm flag) flags_set 0
         else 0)"

subsection \<open>\<^verbatim>\<open>_resolve_way_tags\<close>\<close>

text \<open>
  \<^verbatim>\<open>highway_type and highway_type in way_tag_config\<close>: a falsy value stops the test; a
  non-empty list is not hashable and the membership test raises \<^verbatim>\<open>TypeError\<close>; a scalar
  that is not a string is equal to no key of the table.
\<close>

definition resolve_way_tags ::
  "config \<Rightarrow> (string \<times> attr) list \<Rightarrow> py_error + (int \<times> int \<times> string list)" where
  "resolve_way_tags cfg tags_dict =
     (let highway_type = (case map_of tags_dict ''highway'' of None \<Rightarrow> Sc PNone | Some v \<Rightarrow> v)
      in if \<not> truthy highway_type then Inr (0, 0, [])
         else (case highway_type of
                 Ls xs \<Rightarrow> Inl TypeError
               | Sc (PStr k) \<Rightarrow>
                   (case map_of (way_tag_config cfg) k of
                      Some r \<Rightarrow>
                        Inr (case rule_clazz r of None \<Rightarrow> 0 | Some c \<Rightarrow> c,
                             case rule_maxspeed r of None \<Rightarrow> 0 | Some m \<Rightarrow> m,
                             remdups (case rule_flags r of None \<Rightarrow> [] | Some fs \<Rightarrow> fs))
                    | None \<Rightarrow> Inr (0, 0, []))
               | Sc _ \<Rightarrow> Inr (0, 0, [])))"

subsection \<open>\<^verbatim>\<open>_is_way_allowed_by_final_mask\<close>\<close>

definition final_mask_flags :: "config \<Rightarrow> string list option" where
  "final_mask_flags cfg =
     (case final_mask cfg of
        None \<Rightarrow> None
      | Some final_mask_str \<Rightarrow>
          if final_mask_str \<noteq> [] then Some (remdups (split_comma final_mask_str)) else None)"

definition isdisjoint :: "string list \<Rightarrow> string list \<Rightarrow> bool" where
  "isdisjoint a b = (set a \<inter> set b = {})"

definition is_way_allowed_by_final_mask :: "config \<Rightarrow> string list \<Rightarrow> bool" where
  "is_way_allowed_by_final_mask cfg flags_set =
     (case final_mask_flags cfg of
        None \<Rightarrow> True
      | Some mask_flags \<Rightarrow>
          if flags_set = [] then False else \<not> isdisjoint mask_flags flags_set)"

subsection \<open>Edge rows\<close>

text \<open>
  The geometry object of an edge, as far as the code looks at it: its truth value (an empty
  geometry is falsy) and its attribute \<^verbatim>\<open>length\<close>, whose access may raise.
\<close>

record geometry_obj =
  g_is_empty :: bool
  g_length :: "py_error + pyfloat"

text \<open>
  One row of the edge table, with the columns that the modelled code reads. A column that
  the table does not have is \<open>None\<close>. \<open>tags\<close> is \<open>Some d\<close> exactly when the column exists
  and holds a \<^verbatim>\<open>dict\<close>; \<open>geometry\<close> is \<open>None\<close> when the column is missing or holds
  \<^verbatim>\<open>None\<close>.
\<close>

record raw_edge =
  highway :: "attr option"
  tags :: "(string \<times> attr) list option"
  osm_id :: "attr option"
  id_attr :: "attr option"
  osmid :: "attr option"
  edge_length :: "scalar option"
  geometry :: "geometry_obj option"
  oneway :: "attr option"
  name :: "attr option"
  ref :: "attr option"

text \<open>\<^verbatim>\<open>row.to_dict()\<close> with the keys that the first loop adds; \<open>osm_id\<close> is overwritten.\<close>

record processed_edge = raw_edge +
  clazz :: int
  kmh :: int
  flags_set :: "string list"
  km :: pyfloat
  cost :: pyfloat
  reverse_cost :: pyfloat

text \<open>\<^verbatim>\<open>row.get(key, default)\<close>.\<close>

definition row_get :: "attr option \<Rightarrow> attr \<Rightarrow> attr" where
  "row_get col dflt = (case col of None \<Rightarrow> dflt | Some v \<Rightarrow> v)"

text \<open>\<^verbatim>\<open>if isinstance(v, list): v = v[0] if v else d\<close>.\<close>

fun first_of_list :: "scalar \<Rightarrow> attr \<Rightarrow> scalar" where
  "first_of_list d (Sc s) = s"
| "first_of_list d (Ls []) = d"
| "first_of_list d (Ls (x # xs)) = x"

subsection \<open>First loop of \<^verbatim>\<open>_process_and_write_edges\<close>\<close>

text \<open>Lines 220-226: the tag bag handed to the resolver.\<close>

definition highway_val :: "'a raw_edge_scheme \<Rightarrow> scalar" where
  "highway_val row = first_of_list PNone (row_get (highway row) (Sc PNone))"

definition edge_tags :: "'a raw_edge_scheme \<Rightarrow> (string \<times> attr) list" where
  "edge_tags row =
     (case tags row of
        Some d \<Rightarrow> d @ [(''highway'', Sc (highway_val row))]
      | None \<Rightarrow> [(''highway'', Sc (highway_val row))])"

text \<open>Line 229; \<open>idx\<close> is the index label of the row.\<close>

definition way_id :: "int \<Rightarrow> 'a raw_edge_scheme \<Rightarrow> attr" where
  "way_id idx row = row_get (osm_id row) (row_get (id_attr row) (Sc (PInt idx)))"

text \<open>Lines 247-254: \<^verbatim>\<open>osm_id_val[0]\<close> raises on an empty list.\<close>

definition processed_osm_id :: "int \<Rightarrow> 'a raw_edge_scheme \<Rightarrow> py_error + attr" where
  "processed_osm_id idx row =
     (case row_get (osmid row) (Sc PNone) of
        Ls [] \<Rightarrow> Inl IndexError
      | Ls (x # xs) \<Rightarrow> Inr (Sc x)
      | Sc PNone \<Rightarrow> Inr (way_id idx row)
      | Sc v \<Rightarrow> Inr (Sc v))"

text \<open>Lines 260-265: the length in meters, with the fallback to the geometry.\<close>

definition geometry_truthy :: "'a raw_edge_scheme \<Rightarrow> bool" where
  "geometry_truthy row = (case geometry row of None \<Rightarrow> False | Some g \<Rightarrow> \<not> g_is_empty g)"

definition length_m :: "'a raw_edge_scheme \<Rightarrow> scalar" where
  "length_m row =
     (let l = (case edge_length row of None \<Rightarrow> PInt 0 | Some v \<Rightarrow> v)
      in if eq_zero l \<and> geometry_truthy row
         then (case geometry row of
                 None \<Rightarrow> l
               | Some g \<Rightarrow> (case g_length g of Inl e \<Rightarrow> PInt 0 | Inr f \<Rightarrow> PFloat f))
         else l)"

text \<open>Lines 268-271.\<close>

definition forward_cost :: "pyfloat \<Rightarrow> int \<Rightarrow> pyfloat" where
  "forward_cost km_val maxspeed =
     (if maxspeed > 0 then fdiv km_val (real_of_int maxspeed) else fmul km_val 10)"

text \<open>Lines 274-287.\<close>

definition oneway_val :: "'a raw_edge_scheme \<Rightarrow> scalar" where
  "oneway_val row = first_of_list (PStr ''no'') (row_get (oneway row) (Sc (PStr ''no'')))"

definition is_oneway :: "(real \<Rightarrow> string) \<Rightarrow> 'a raw_edge_scheme \<Rightarrow> bool" where
  "is_oneway float_repr row =
     (lower (py_str float_repr (oneway_val row)) \<in> set [''yes'', ''true'', ''1'', ''-1''])"

definition reverse_cost_of :: "(real \<Rightarrow> string) \<Rightarrow> 'a raw_edge_scheme \<Rightarrow> pyfloat \<Rightarrow> pyfloat" where
  "reverse_cost_of float_repr row cost_val =
     (if is_oneway float_repr row
      then (if py_str float_repr (oneway_val row) = ''-1'' then cost_val else Fl 100000)
      else cost_val)"

text \<open>
  The body of the loop for one row: \<open>Inr None\<close> is \<^verbatim>\<open>continue\<close>, \<open>Inl e\<close> an exception,
  which nothing in the loop catches.
\<close>

definition process_edge ::
  "(real \<Rightarrow> string) \<Rightarrow> config \<Rightarrow> int \<Rightarrow> raw_edge \<Rightarrow> py_error + processed_edge option" where
  "process_edge float_repr cfg idx row =
     (case resolve_way_tags cfg (edge_tags row) of
        Inl e \<Rightarrow> Inl e
      | Inr (clazz_val, maxspeed, flags) \<Rightarrow>
          if \<not> is_way_allowed_by_final_mask cfg flags then Inr None
          else if clazz_val = 0 then Inr None
          else (case processed_osm_id idx row of
                  Inl e \<Rightarrow> Inl e
                | Inr oid \<Rightarrow>
                    (case truediv (length_m row) 1000 of
                       Inl e \<Rightarrow> Inl e
                     | Inr km_val \<Rightarrow>
                         let cost_val = forward_cost km_val maxspeed
                         in Inr (Some (raw_edge.extend (row\<lparr>osm_id := Some oid\<rparr>)
                              (processed_edge.fields clazz_val maxspeed flags km_val cost_val
                                 (reverse_cost_of float_repr row cost_val)))))))"

text \<open>The loop over \<^verbatim>\<open>edges_gdf.iterrows()\<close>: the first exception ends it.\<close>

fun processed_edges_list ::
  "(real \<Rightarrow> string) \<Rightarrow> config \<Rightarrow> (int \<times> raw_edge) list \<Rightarrow> py_error + processed_edge list" where
  "processed_edges_list float_repr cfg [] = Inr []"
| "processed_edges_list float_repr cfg ((idx, row) # rest) =
     (case process_edge float_repr cfg idx row of
        Inl e \<Rightarrow> Inl e
      | Inr None \<Rightarrow> processed_edges_list float_repr cfg rest
      | Inr (Some p) \<Rightarrow>
          (case processed_edges_list float_repr cfg rest of
             Inl e \<Rightarrow> Inl e
           | Inr ps \<Rightarrow> Inr (p # ps)))"

subsection \<open>Second loop of \<^verbatim>\<open>_process_and_write_edges\<close>: the display name\<close>

text \<open>\<^verbatim>\<open>s.replace("'", "''")\<close> and the quoting \<^verbatim>\<open>f"'{escaped}'"\<close> of lines 320-322 and
  325-327.\<close>

definition replace_quote :: "string \<Rightarrow> string" where
  "replace_quote s = concat (map (\<lambda>c. if c = CHR 0x27 then [CHR 0x27, CHR 0x27] else [c]) s)"

definition quoted :: "string \<Rightarrow> string" where
  "quoted s = [CHR 0x27] @ replace_quote s @ [CHR 0x27]"

definition osm_name_val :: "'a raw_edge_scheme \<Rightarrow> scalar" where
  "osm_name_val row = first_of_list PNone (row_get (name row) (Sc PNone))"

definition ref_val :: "'a raw_edge_scheme \<Rightarrow> scalar" where
  "ref_val row = first_of_list PNone (row_get (ref row) (Sc PNone))"

definition final_name_for_sql :: "(real \<Rightarrow> string) \<Rightarrow> 'a raw_edge_scheme \<Rightarrow> string" where
  "final_name_for_sql float_repr row =
     (if notna (osm_name_val row) \<and> strip (py_str float_repr (osm_name_val row)) \<noteq> []
      then quoted (py_str float_repr (osm_name_val row))
      else if notna (ref_val row) \<and> strip (py_str float_repr (ref_val row)) \<noteq> []
      then quoted (py_str float_repr (ref_val row))
      else ''NULL'')"

subsection \<open>The insert statements of \<^verbatim>\<open>build_network\<close>\<close>








subsection \<open>Reference definitions\<close>

text \<open>
  The packed value as the specification words it: the bitwise OR of \<open>1 << i\<close> over the
  positions \<open>i\<close> of the vocabulary whose flag is in the set.
\<close>

definition spec_pack :: "string list \<Rightarrow> string set \<Rightarrow> int" where
  "spec_pack vocabulary flags =
     fold (\<lambda>i acc. acc OR push_bit i 1)
       (filter (\<lambda>i. vocabulary ! i \<in> flags) [0..<length vocabulary]) 0"

text \<open>
  Reading a quoted SQL string back, as the specification words the round trip: after the
  opening quote, a doubled quote stands for one quote character and a single quote ends the
  literal, which must end there.
\<close>

fun spec_read_body :: "string \<Rightarrow> string option" where
  "spec_read_body [] = None"
| "spec_read_body [c] = (if c = CHR 0x27 then Some [] else None)"
| "spec_read_body (c # d # ds) =
     (if c = CHR 0x27
      then (if d = CHR 0x27 then map_option ((#) (CHR 0x27)) (spec_read_body ds) else None)
      else map_option ((#) c) (spec_read_body (d # ds)))"

definition spec_read_literal :: "string \<Rightarrow> string option" where
  "spec_read_literal lit =
     (case lit of [] \<Rightarrow> None | c # cs \<Rightarrow> if c = CHR 0x27 then spec_read_body cs else None)"

text \<open>
  The display name as the specification words it, with "non-empty" read literally: the name
  when it is not null and its text is not the empty string, else the reference under the
  same test, else \<^verbatim>\<open>NULL\<close>.
\<close>

definition spec_nonempty :: "(real \<Rightarrow> string) \<Rightarrow> scalar \<Rightarrow> bool" where
  "spec_nonempty float_repr v = (notna v \<and> py_str float_repr v \<noteq> [])"

definition spec_display_name :: "(real \<Rightarrow> string) \<Rightarrow> 'a raw_edge_scheme \<Rightarrow> string" where
  "spec_display_name float_repr row =
     (if spec_nonempty float_repr (osm_name_val row)
      then quoted (py_str float_repr (osm_name_val row))
      else if spec_nonempty float_repr (ref_val row)
      then quoted (py_str float_repr (ref_val row))
      else ''NULL'')"

subsection \<open>Example inputs\<close>

text \<open>The built-in configuration of \<^verbatim>\<open>_load_config\<close> (section \<^verbatim>\<open>way_tag_resolver\<close>).\<close>

definition default_config :: config where
  "default_config =
     \<lparr>way_tag_config =
        [(''motorway'', \<lparr>rule_clazz = Some 11, rule_maxspeed = Some 120,
                          rule_flags = Some [''car'']\<rparr>)],
      final_mask = None,
      flag_list = Some [''car'', ''bike'', ''foot'']\<rparr>"

text \<open>The same with the allow-mask \<^verbatim>\<open>"bike,foot"\<close>, and with a rule whose speed is 0.\<close>

definition masked_config :: config where
  "masked_config = default_config\<lparr>final_mask := Some ''bike,foot''\<rparr>"

definition track_config :: config where
  "track_config =
     default_config\<lparr>way_tag_config :=
        [(''track'', \<lparr>rule_clazz = Some 71, rule_maxspeed = Some 0,
                       rule_flags = Some [''bike'', ''foot'']\<rparr>)]\<rparr>"

text \<open>A float printer for the examples; none of them prints a finite float.\<close>

definition example_float_repr :: "real \<Rightarrow> string" where
  "example_float_repr r = ''0.0''"

text \<open>A motorway segment of 2000 m, one-way, without a name.\<close>

definition motorway_edge :: raw_edge where
  "motorway_edge =
     \<lparr>highway = Some (Sc (PStr ''motorway'')), tags = None, osm_id = None, id_attr = None,
      osmid = Some (Sc (PInt 4711)), edge_length = Some (PInt 2000), geometry = None,
      oneway = Some (Sc (PStr ''yes'')), name = None, ref = None\<rparr>"

text \<open>The same segment digitised against the direction of travel, and without the column
  \<^verbatim>\<open>oneway\<close>.\<close>

definition reversed_edge :: raw_edge where
  "reversed_edge = motorway_edge\<lparr>oneway := Some (Sc (PStr ''-1''))\<rparr>"

definition twoway_edge :: raw_edge where
  "twoway_edge = motorway_edge\<lparr>oneway := None\<rparr>"

text \<open>A track without a supplied length, whose geometry measures 350.\<close>

definition track_edge :: raw_edge where
  "track_edge =
     \<lparr>highway = Some (Sc (PStr ''track'')), tags = None, osm_id = None, id_attr = None,
      osmid = None, edge_length = None,
      geometry = Some \<lparr>g_is_empty = False, g_length = Inr (Fl 350)\<rparr>,
      oneway = Some (Sc (PStr ''no'')), name = None, ref = None\<rparr>"

text \<open>A segment of an unknown road type.\<close>

definition unknown_edge :: raw_edge where
  "unknown_edge = motorway_edge\<lparr>highway := Some (Sc (PStr ''bridleway''))\<rparr>"

text \<open>Names: one with an apostrophe, and a blank one beside a reference.\<close>

definition named_edge :: raw_edge where
  "named_edge = motorway_edge\<lparr>name := Some (Ls [PStr ''King's Road'', PStr ''A3''])\<rparr>"

definition blank_name_edge :: raw_edge where
  "blank_name_edge =
     motorway_edge\<lparr>name := Some (Sc (PStr '' '')), ref := Some (Sc (PStr ''A1''))\<rparr>"

text \<open>The records that the first loop makes of the motorway segments and of the track.\<close>

definition motorway_processed :: processed_edge where
  "motorway_processed =
     raw_edge.extend (motorway_edge\<lparr>osm_id := Some (Sc (PInt 4711))\<rparr>)
       (processed_edge.fields 11 120 [''car''] (Fl 2) (Fl (1 / 60)) (Fl 100000))"

definition reversed_processed :: processed_edge where
  "reversed_processed =
     raw_edge.extend (reversed_edge\<lparr>osm_id := Some (Sc (PInt 4711))\<rparr>)
       (processed_edge.fields 11 120 [''car''] (Fl 2) (Fl (1 / 60)) (Fl (1 / 60)))"

definition twoway_processed :: processed_edge where
  "twoway_processed =
     raw_edge.extend (twoway_edge\<lparr>osm_id := Some (Sc (PInt 4711))\<rparr>)
       (processed_edge.fields 11 120 [''car''] (Fl 2) (Fl (1 / 60)) (Fl (1 / 60)))"

definition track_processed :: processed_edge where
  "track_processed =
     raw_edge.extend (track_edge\<lparr>osm_id := Some (Sc (PInt 7))\<rparr>)
       (processed_edge.fields 71 0 [''bike'', ''foot''] (Fl (7 / 20)) (Fl (7 / 2)) (Fl (7 / 2)))"

text \<open>The one-way motorway segment with a usable geometry of length 350 and a length that
  is NaN (the missing value of a numeric column), with the record the first loop makes of
  it; and the same segment with the length \<^verbatim>\<open>None\<close>.\<close>

definition nan_length_edge :: raw_edge where
  "nan_length_edge =
     motorway_edge\<lparr>edge_length := Some (PFloat NaN),
       geometry := Some \<lparr>g_is_empty = False, g_length = Inr (Fl 350)\<rparr>\<rparr>"

definition nan_length_processed :: processed_edge where
  "nan_length_processed =
     raw_edge.extend (nan_length_edge\<lparr>osm_id := Some (Sc (PInt 4711))\<rparr>)
       (processed_edge.fields 11 120 [''car''] NaN NaN (Fl 100000))"

definition none_length_edge :: raw_edge where
  "none_length_edge =
     motorway_edge\<lparr>edge_length := Some PNone,
       geometry := Some \<lparr>g_is_empty = False, g_length = Inr (Fl 350)\<rparr>\<rparr>"


section \<open>Properties\<close>

subsection \<open>The flag packer\<close>

lemma flag_bitmask_snoc:
  "flag_bitmask (fl @ [f]) = (flag_bitmask fl)(f \<mapsto> 2 ^ length fl)"
  by (simp add: flag_bitmask_def enumerate_append_eq)

lemma flag_bitmask_Nil: "flag_bitmask [] = Map.empty"
  by (simp add: flag_bitmask_def)

lemma flag_bitmask_None: "flag_bitmask fl f = None \<longleftrightarrow> f \<notin> set fl"
  by (induction fl rule: rev_induct) (auto simp: flag_bitmask_snoc flag_bitmask_Nil)

text \<open>Every entry of the table is the bit of a position that holds the flag.\<close>

lemma flag_bitmask_Some:
  "flag_bitmask fl f = Some b \<Longrightarrow> \<exists>i<length fl. fl ! i = f \<and> b = 2 ^ i"
proof (induction fl arbitrary: b rule: rev_induct)
  case Nil
  then show ?case by (simp add: flag_bitmask_Nil)
next
  case (snoc x xs)
  show ?case
  proof (cases "f = x")
    case True
    with snoc.prems have "b = 2 ^ length xs" by (simp add: flag_bitmask_snoc)
    with True show ?thesis by (intro exI[of _ "length xs"]) simp
  next
    case False
    with snoc.prems have "flag_bitmask xs f = Some b" by (simp add: flag_bitmask_snoc)
    from snoc.IH[OF this] obtain i where "i < length xs" "xs ! i = f" "b = 2 ^ i" by blast
    then show ?thesis by (intro exI[of _ i]) (simp add: nth_append)
  qed
qed

lemma bit_fold_or:
  "bit (fold (\<lambda>x acc. acc OR g x) xs (a::int)) n \<longleftrightarrow> bit a n \<or> (\<exists>x\<in>set xs. bit (g x) n)"
  by (induction xs arbitrary: a) (auto simp: bit_or_iff)

lemma bit_flags_to_int:
  "bit (flags_to_int cfg fs) n \<longleftrightarrow>
     (\<exists>f\<in>set fs. bit (bitmask_get (flag_bitmask (get_flag_list cfg)) f) n)"
  by (cases fs) (simp_all add: flags_to_int_def Let_def bit_fold_or)

lemma bit_bitmask_get_distinct:
  assumes "distinct fl"
  shows "bit (bitmask_get (flag_bitmask fl) f) n \<longleftrightarrow> n < length fl \<and> fl ! n = f"
proof (cases "flag_bitmask fl f")
  case None
  then have "f \<notin> set fl" by (simp add: flag_bitmask_None)
  with None show ?thesis by (auto simp: bitmask_get_def)
next
  case (Some b)
  from flag_bitmask_Some[OF Some] obtain i where i: "i < length fl" "fl ! i = f" "b = 2 ^ i"
    by blast
  have "n < length fl \<and> fl ! n = f \<longleftrightarrow> n = i"
    using assms i by (auto simp: nth_eq_iff_index_eq)
  with Some i show ?thesis by (auto simp: bitmask_get_def bit_exp_iff)
qed

text \<open>Bit \<open>n\<close> of the reference value is set exactly when position \<open>n\<close> of the vocabulary
  holds a flag of the set.\<close>

lemma bit_spec_pack:
  "bit (spec_pack fl S) n \<longleftrightarrow> n < length fl \<and> fl ! n \<in> S"
  by (auto simp: spec_pack_def bit_fold_or bit_exp_iff)

lemma flags_to_int_set_cong:
  "set fs = set gs \<Longrightarrow> flags_to_int cfg fs = flags_to_int cfg gs"
  by (rule bit_eqI) (simp add: bit_flags_to_int)

lemma bitmask_get_unknown: "f \<notin> set fl \<Longrightarrow> bitmask_get (flag_bitmask fl) f = 0"
  using flag_bitmask_None[of fl f] by (simp add: bitmask_get_def)

lemma flags_to_int_known_only:
  "flags_to_int cfg (filter (\<lambda>f. f \<in> set (get_flag_list cfg)) fs) = flags_to_int cfg fs"
proof (rule bit_eqI)
  fix n
  have "f \<in> set (get_flag_list cfg)"
    if "bit (bitmask_get (flag_bitmask (get_flag_list cfg)) f) n" for f
    using that by (cases "f \<in> set (get_flag_list cfg)") (simp_all add: bitmask_get_unknown)
  then show "bit (flags_to_int cfg (filter (\<lambda>f. f \<in> set (get_flag_list cfg)) fs)) n
      \<longleftrightarrow> bit (flags_to_int cfg fs) n"
    by (auto simp: bit_flags_to_int)
qed

lemma bitmask_get_range:
  "0 \<le> bitmask_get (flag_bitmask fl) f \<and> bitmask_get (flag_bitmask fl) f < 2 ^ length fl"
proof (cases "flag_bitmask fl f")
  case None
  then show ?thesis by (simp add: bitmask_get_def)
next
  case (Some b)
  from flag_bitmask_Some[OF Some] obtain i where "i < length fl" "b = 2 ^ i" by blast
  with Some show ?thesis by (simp add: bitmask_get_def)
qed

lemma fold_or_range:
  fixes a :: int
  assumes "0 \<le> a" "a < 2 ^ n" "\<And>x. 0 \<le> g x \<and> g x < 2 ^ n"
  shows "0 \<le> fold (\<lambda>x acc. acc OR g x) xs a \<and> fold (\<lambda>x acc. acc OR g x) xs a < 2 ^ n"
  using assms(1,2)
proof (induction xs arbitrary: a)
  case Nil
  then show ?case by simp
next
  case (Cons x xs)
  have "0 \<le> a OR g x" using Cons.prems assms(3)[of x] by simp
  moreover have "a OR g x < 2 ^ n" using Cons.prems assms(3)[of x] by (intro OR_upper) simp_all
  ultimately show ?case using Cons.IH by simp
qed

text \<open>For any vocabulary, a flag sets the bit of its last position only.\<close>

lemma bitmask_get_snoc:
  "bitmask_get (flag_bitmask (fl @ [x])) f
     = (if f = x then 2 ^ length fl else bitmask_get (flag_bitmask fl) f)"
  by (simp add: bitmask_get_def flag_bitmask_snoc)

lemma bit_bitmask_get_last:
  "bit (bitmask_get (flag_bitmask fl) f) n \<longleftrightarrow>
     n < length fl \<and> fl ! n = f \<and> (\<forall>m. n < m \<and> m < length fl \<longrightarrow> fl ! m \<noteq> f)"
proof (induction fl rule: rev_induct)
  case Nil
  then show ?case by (simp add: bitmask_get_def flag_bitmask_Nil)
next
  case (snoc x xs)
  show ?case
  proof (cases "f = x")
    case True
    have "(n < length (xs @ [x]) \<and> (xs @ [x]) ! n = f
           \<and> (\<forall>m. n < m \<and> m < length (xs @ [x]) \<longrightarrow> (xs @ [x]) ! m \<noteq> f)) \<longleftrightarrow> n = length xs"
    proof
      assume a: "n < length (xs @ [x]) \<and> (xs @ [x]) ! n = f
           \<and> (\<forall>m. n < m \<and> m < length (xs @ [x]) \<longrightarrow> (xs @ [x]) ! m \<noteq> f)"
      show "n = length xs"
      proof (rule ccontr)
        assume "n \<noteq> length xs"
        with a have "n < length xs" by simp
        moreover from a have "\<forall>m. n < m \<and> m < length (xs @ [x]) \<longrightarrow> (xs @ [x]) ! m \<noteq> f"
          by blast
        ultimately have "(xs @ [x]) ! length xs \<noteq> f"
          by (metis length_append_singleton lessI)
        with True show False by simp
      qed
    next
      assume "n = length xs"
      with True show "n < length (xs @ [x]) \<and> (xs @ [x]) ! n = f
           \<and> (\<forall>m. n < m \<and> m < length (xs @ [x]) \<longrightarrow> (xs @ [x]) ! m \<noteq> f)"
        by auto
    qed
    with True show ?thesis by (simp add: bitmask_get_snoc bit_exp_iff)
  next
    case False
    have "(n < length (xs @ [x]) \<and> (xs @ [x]) ! n = f
           \<and> (\<forall>m. n < m \<and> m < length (xs @ [x]) \<longrightarrow> (xs @ [x]) ! m \<noteq> f))
          \<longleftrightarrow> (n < length xs \<and> xs ! n = f \<and> (\<forall>m. n < m \<and> m < length xs \<longrightarrow> xs ! m \<noteq> f))"
      using False by (auto simp: nth_append less_Suc_eq)
    with False snoc show ?thesis by (simp add: bitmask_get_snoc)
  qed
qed

text \<open>
  Claim C6. For a vocabulary of distinct names, \<^verbatim>\<open>_flags_to_int\<close> returns the bitwise OR
  of \<open>1 << i\<close> over the positions \<open>i\<close> of the vocabulary whose flag is in the set. For any
  vocabulary, bit \<open>n\<close> of the result is set exactly when position \<open>n\<close> holds a flag of the
  set and no later position holds the same name; two iteration orders (or enumerations with
  repetitions) of the same set give the same value, flags outside the vocabulary contribute
  nothing, and the empty set packs to 0.
\<close>

theorem flags_to_int_is_or_of_vocabulary_bits:
  "(distinct (get_flag_list cfg) \<longrightarrow>
      flags_to_int cfg fs = spec_pack (get_flag_list cfg) (set fs))
   \<and> (bit (flags_to_int cfg fs) n \<longleftrightarrow>
        n < length (get_flag_list cfg) \<and> get_flag_list cfg ! n \<in> set fs
        \<and> (\<forall>m. n < m \<and> m < length (get_flag_list cfg) \<longrightarrow>
               get_flag_list cfg ! m \<noteq> get_flag_list cfg ! n))
   \<and> (set fs = set gs \<longrightarrow> flags_to_int cfg fs = flags_to_int cfg gs)
   \<and> flags_to_int cfg (filter (\<lambda>f. f \<in> set (get_flag_list cfg)) fs) = flags_to_int cfg fs
   \<and> flags_to_int cfg [] = 0"
proof (intro conjI impI)
  assume "distinct (get_flag_list cfg)"
  then show "flags_to_int cfg fs = spec_pack (get_flag_list cfg) (set fs)"
    by (auto intro!: bit_eqI simp: bit_flags_to_int bit_bitmask_get_distinct bit_spec_pack)
next
  show "bit (flags_to_int cfg fs) n \<longleftrightarrow>
        n < length (get_flag_list cfg) \<and> get_flag_list cfg ! n \<in> set fs
        \<and> (\<forall>m. n < m \<and> m < length (get_flag_list cfg) \<longrightarrow>
               get_flag_list cfg ! m \<noteq> get_flag_list cfg ! n)"
    by (auto simp: bit_flags_to_int bit_bitmask_get_last)
next
  assume "set fs = set gs"
  then show "flags_to_int cfg fs = flags_to_int cfg gs" by (rule flags_to_int_set_cong)
next
  show "flags_to_int cfg (filter (\<lambda>f. f \<in> set (get_flag_list cfg)) fs) = flags_to_int cfg fs"
    by (rule flags_to_int_known_only)
next
  show "flags_to_int cfg [] = 0" by (simp add: flags_to_int_def)
qed

theorem flags_to_int_is_or_of_vocabulary_bits_witness:
  "distinct (get_flag_list default_config)
   \<and> set [''foot'', ''boat'', ''car''] = set [''car'', ''foot'', ''boat'', ''car'']
   \<and> flags_to_int default_config [''foot'', ''boat'', ''car'']
       = spec_pack (get_flag_list default_config) (set [''foot'', ''boat'', ''car''])
   \<and> flags_to_int default_config [''foot'', ''boat'', ''car'']
       = flags_to_int default_config [''car'', ''foot'', ''boat'', ''car'']
   \<and> flags_to_int default_config [''foot'', ''boat'', ''car''] = 5"
proof -
  have d: "distinct (get_flag_list default_config)"
    by (simp add: get_flag_list_def default_config_def)
  have s: "set [''foot'', ''boat'', ''car''] = set [''car'', ''foot'', ''boat'', ''car'']"
    by auto
  have v: "flags_to_int default_config [''foot'', ''boat'', ''car''] = 5"
    by (simp add: flags_to_int_def flag_bitmask_def get_flag_list_def bitmask_get_def
        default_config_def)
  from flags_to_int_is_or_of_vocabulary_bits
    [of default_config "[''foot'', ''boat'', ''car'']" 0 "[''car'', ''foot'', ''boat'', ''car'']"]
    d s v
  show ?thesis by blast
qed

text \<open>
  Claim C10. For every flag set and every vocabulary of length \<open>n\<close>, the packed value lies
  in the range from 0 to \<open>2 ^ n - 1\<close>.
\<close>

theorem flags_to_int_range:
  "0 \<le> flags_to_int cfg fs \<and> flags_to_int cfg fs < 2 ^ length (get_flag_list cfg)"
proof (cases fs)
  case Nil
  then show ?thesis by (simp add: flags_to_int_def)
next
  case (Cons a list)
  then show ?thesis
    using fold_or_range[of 0 "length (get_flag_list cfg)"
        "bitmask_get (flag_bitmask (get_flag_list cfg))" fs]
    by (simp add: flags_to_int_def Let_def bitmask_get_range)
qed

theorem flags_to_int_range_witness:
  "0 \<le> flags_to_int default_config [''foot'', ''bike'', ''car'']
   \<and> flags_to_int default_config [''foot'', ''bike'', ''car'']
       < 2 ^ length (get_flag_list default_config)
   \<and> length (get_flag_list default_config) = 3"
proof -
  have "length (get_flag_list default_config) = 3"
    by (simp add: get_flag_list_def default_config_def)
  with flags_to_int_range[of default_config "[''foot'', ''bike'', ''car'']"]
  show ?thesis by blast
qed

subsection \<open>The mask filter\<close>

text \<open>
  Claim C5. Without an allow-mask (the key is missing, or holds \<^verbatim>\<open>None\<close> or the empty
  string) every flag set passes. With an allow-mask, the empty flag set does not pass, and
  a flag set passes exactly when it shares a flag with the mask.
\<close>

theorem final_mask_filter:
  "(final_mask cfg = None \<or> final_mask cfg = Some [] \<longrightarrow> is_way_allowed_by_final_mask cfg fs)
   \<and> (\<forall>m. final_mask cfg = Some m \<and> m \<noteq> [] \<longrightarrow>
        \<not> is_way_allowed_by_final_mask cfg []
        \<and> (is_way_allowed_by_final_mask cfg fs \<longleftrightarrow> set fs \<inter> set (split_comma m) \<noteq> {}))"
  by (auto simp: is_way_allowed_by_final_mask_def final_mask_flags_def isdisjoint_def)

theorem final_mask_filter_witness:
  "final_mask default_config = None
   \<and> is_way_allowed_by_final_mask default_config []
   \<and> final_mask masked_config = Some ''bike,foot'' \<and> ''bike,foot'' \<noteq> []
   \<and> split_comma ''bike,foot'' = [''bike'', ''foot'']
   \<and> \<not> is_way_allowed_by_final_mask masked_config []
   \<and> (is_way_allowed_by_final_mask masked_config [''car'', ''foot'']
        \<longleftrightarrow> set [''car'', ''foot''] \<inter> set (split_comma ''bike,foot'') \<noteq> {})
   \<and> is_way_allowed_by_final_mask masked_config [''car'', ''foot'']
   \<and> \<not> is_way_allowed_by_final_mask masked_config [''car'']"
proof -
  have a: "final_mask default_config = None" by (simp add: default_config_def)
  have b: "final_mask masked_config = Some ''bike,foot'' \<and> ''bike,foot'' \<noteq> []"
    by (simp add: masked_config_def default_config_def)
  have c: "split_comma ''bike,foot'' = [''bike'', ''foot'']" by simp
  have d: "set [''car'', ''foot''] \<inter> set (split_comma ''bike,foot'') \<noteq> {}"
    by (simp add: c)
  have e: "\<not> set [''car''] \<inter> set (split_comma ''bike,foot'') \<noteq> {}"
    by (simp add: c)
  from final_mask_filter[of default_config "[]"] final_mask_filter[of masked_config "[''car'', ''foot'']"]
    final_mask_filter[of masked_config "[''car'']"] a b c d e
  show ?thesis by blast
qed

subsection \<open>The edge processor\<close>

lemma process_edge_SomeD:
  assumes "process_edge fr cfg idx row = Inr (Some e)"
  obtains c sp fl oid kmv where
    "resolve_way_tags cfg (edge_tags row) = Inr (c, sp, fl)"
    "is_way_allowed_by_final_mask cfg fl" "c \<noteq> 0"
    "processed_osm_id idx row = Inr oid"
    "truediv (length_m row) 1000 = Inr kmv"
    "clazz e = c" "kmh e = sp" "flags_set e = fl" "km e = kmv"
    "cost e = forward_cost kmv sp"
    "reverse_cost e = reverse_cost_of fr row (forward_cost kmv sp)"
    "osm_id e = Some oid"
  using assms
  by (auto simp: process_edge_def Let_def raw_edge.defs processed_edge.defs
      split: sum.splits prod.splits if_splits)

lemma processed_edges_list_kept:
  "processed_edges_list fr cfg rows = Inr es \<Longrightarrow> e \<in> set es \<Longrightarrow>
     clazz e \<noteq> 0 \<and> is_way_allowed_by_final_mask cfg (flags_set e)"
proof (induction rows arbitrary: es)
  case Nil
  then show ?case by simp
next
  case (Cons r rows)
  obtain idx row where r: "r = (idx, row)" by (cases r)
  show ?case
  proof (cases "process_edge fr cfg idx row")
    case (Inl a)
    with Cons.prems r show ?thesis by simp
  next
    case (Inr po)
    show ?thesis
    proof (cases po)
      case None
      with Inr Cons r show ?thesis by simp
    next
      case (Some p)
      with Inr Cons.prems r obtain ps where
        ps: "processed_edges_list fr cfg rows = Inr ps" "es = p # ps"
        by (auto split: sum.splits)
      from Inr Some have "clazz p \<noteq> 0 \<and> is_way_allowed_by_final_mask cfg (flags_set p)"
        by (auto elim!: process_edge_SomeD)
      with Cons.IH[OF ps(1)] Cons.prems(2) ps(2) show ?thesis by auto
    qed
  qed
qed

lemma lower_minus_one: "lower ''-1'' = ''-1''"
  by code_simp

lemma lower_not_oneway:
  "lower ''no'' = ''no''" "lower ''None'' = ''none''" "lower ''nan'' = ''nan''"
  by code_simp+

lemma lower_yes: "lower ''yes'' = ''yes''"
  by code_simp

lemma process_motorway_edge:
  "process_edge example_float_repr default_config 0 motorway_edge = Inr (Some motorway_processed)"
  by code_simp

lemma process_reversed_edge:
  "process_edge example_float_repr default_config 0 reversed_edge = Inr (Some reversed_processed)"
  by code_simp

lemma process_twoway_edge:
  "process_edge example_float_repr default_config 0 twoway_edge = Inr (Some twoway_processed)"
  by code_simp

lemma process_track_edge:
  "process_edge example_float_repr track_config 7 track_edge = Inr (Some track_processed)"
  by code_simp

lemma process_nan_length_edge:
  "process_edge example_float_repr default_config 0 nan_length_edge
     = Inr (Some nan_length_processed)"
  by code_simp

text \<open>
  Claim C1. For a processed edge whose one-way indicator (after taking the first element of
  a list), printed and lower-cased, is \<^verbatim>\<open>yes\<close>, \<^verbatim>\<open>true\<close> or \<^verbatim>\<open>1\<close>, the reverse cost is
  100000. For an indicator that is none of the four one-way words, in particular \<^verbatim>\<open>no\<close>, a
  missing column, an empty list, \<^verbatim>\<open>None\<close> or NaN, the reverse cost is the forward cost.
\<close>

theorem reverse_cost_by_oneway:
  assumes "process_edge fr cfg idx row = Inr (Some e)"
  shows "(lower (py_str fr (oneway_val row)) \<in> {''yes'', ''true'', ''1''} \<longrightarrow>
            reverse_cost e = Fl 100000)
         \<and> (lower (py_str fr (oneway_val row)) \<notin> {''yes'', ''true'', ''1'', ''-1''} \<longrightarrow>
            reverse_cost e = cost e)
         \<and> (oneway row = None \<or> oneway row = Some (Sc (PStr ''no''))
              \<or> oneway row = Some (Ls []) \<or> oneway row = Some (Sc PNone)
              \<or> oneway row = Some (Sc (PFloat NaN)) \<longrightarrow>
            reverse_cost e = cost e)"
proof -
  from assms obtain kmv sp where
    e: "cost e = forward_cost kmv sp"
       "reverse_cost e = reverse_cost_of fr row (forward_cost kmv sp)"
    by (elim process_edge_SomeD)
  have a: "reverse_cost e = Fl 100000"
    if "lower (py_str fr (oneway_val row)) \<in> {''yes'', ''true'', ''1''}"
  proof -
    have "py_str fr (oneway_val row) \<noteq> ''-1''"
      using that lower_minus_one by auto
    with that e show ?thesis by (auto simp: reverse_cost_of_def is_oneway_def)
  qed
  have b: "reverse_cost e = cost e"
    if "lower (py_str fr (oneway_val row)) \<notin> {''yes'', ''true'', ''1'', ''-1''}"
    using that e by (simp add: reverse_cost_of_def is_oneway_def)
  have c: "lower (py_str fr (oneway_val row)) \<notin> {''yes'', ''true'', ''1'', ''-1''}"
    if "oneway row = None \<or> oneway row = Some (Sc (PStr ''no''))
        \<or> oneway row = Some (Ls []) \<or> oneway row = Some (Sc PNone)
        \<or> oneway row = Some (Sc (PFloat NaN))"
    using that lower_not_oneway by (auto simp: oneway_val_def row_get_def)
  from a b c show ?thesis by blast
qed

theorem reverse_cost_by_oneway_witness:
  "process_edge example_float_repr default_config 0 motorway_edge = Inr (Some motorway_processed)
   \<and> lower (py_str example_float_repr (oneway_val motorway_edge)) \<in> {''yes'', ''true'', ''1''}
   \<and> reverse_cost motorway_processed = Fl 100000
   \<and> process_edge example_float_repr default_config 0 twoway_edge = Inr (Some twoway_processed)
   \<and> oneway twoway_edge = None
   \<and> reverse_cost twoway_processed = cost twoway_processed"
proof -
  have a: "lower (py_str example_float_repr (oneway_val motorway_edge)) \<in> {''yes'', ''true'', ''1''}"
    by (simp add: oneway_val_def row_get_def motorway_edge_def lower_yes)
  have b: "oneway twoway_edge = None"
    by (simp add: twoway_edge_def motorway_edge_def)
  from reverse_cost_by_oneway[OF process_motorway_edge]
    reverse_cost_by_oneway[OF process_twoway_edge] process_motorway_edge process_twoway_edge a b
  show ?thesis by blast
qed

text \<open>
  Claim C2. For a processed edge whose one-way indicator prints as \<^verbatim>\<open>-1\<close>, the reverse
  cost is the forward cost, and the forward cost is the one every edge gets from its length
  and speed: \<open>km / speed\<close> for a positive speed. The blocking value is assigned to neither.
\<close>

theorem reverse_cost_reversed_oneway:
  assumes "process_edge fr cfg idx row = Inr (Some e)"
    and "py_str fr (oneway_val row) = ''-1''"
  shows "reverse_cost e = cost e
         \<and> cost e = forward_cost (km e) (kmh e)
         \<and> (0 < kmh e \<longrightarrow> cost e = fdiv (km e) (real_of_int (kmh e)))"
proof -
  from assms(1) obtain kmv sp where
    e: "km e = kmv" "kmh e = sp" "cost e = forward_cost kmv sp"
       "reverse_cost e = reverse_cost_of fr row (forward_cost kmv sp)"
    by (elim process_edge_SomeD)
  from e assms(2) show ?thesis
    by (simp add: reverse_cost_of_def forward_cost_def)
qed

theorem reverse_cost_reversed_oneway_witness:
  "process_edge example_float_repr default_config 0 reversed_edge = Inr (Some reversed_processed)
   \<and> py_str example_float_repr (oneway_val reversed_edge) = ''-1''
   \<and> reverse_cost reversed_processed = cost reversed_processed
   \<and> cost reversed_processed = fdiv (km reversed_processed) (real_of_int (kmh reversed_processed))
   \<and> cost reversed_processed = Fl (1 / 60)"
proof -
  have a: "py_str example_float_repr (oneway_val reversed_edge) = ''-1''"
    by (simp add: oneway_val_def row_get_def reversed_edge_def motorway_edge_def)
  have b: "0 < kmh reversed_processed" "cost reversed_processed = Fl (1 / 60)"
    by (simp_all add: reversed_processed_def raw_edge.defs processed_edge.defs)
  from reverse_cost_reversed_oneway[OF process_reversed_edge a] process_reversed_edge a b
  show ?thesis by blast
qed


text \<open>
  Claim C3, as stated, fails for a length that is absent as a value: a NaN length is not
  equal to 0, so the geometry of length 350 is not consulted and the length in kilometers
  and the forward cost are NaN, not \<open>0.35\<close> and \<open>0.35 / 120\<close>; a \<^verbatim>\<open>None\<close> length makes
  the division raise \<^verbatim>\<open>TypeError\<close>.
\<close>

theorem nan_length_gets_no_fallback:
  "edge_length nan_length_edge = Some (PFloat NaN)
   \<and> geometry nan_length_edge = Some \<lparr>g_is_empty = False, g_length = Inr (Fl 350)\<rparr>
   \<and> resolve_way_tags default_config (edge_tags nan_length_edge) = Inr (11, 120, [''car''])
   \<and> process_edge example_float_repr default_config 0 nan_length_edge
       = Inr (Some nan_length_processed)
   \<and> km nan_length_processed = NaN
   \<and> km nan_length_processed \<noteq> Fl (350 / 1000)
   \<and> cost nan_length_processed = NaN
   \<and> cost nan_length_processed \<noteq> fdiv (Fl (350 / 1000)) (real_of_int 120)
   \<and> edge_length none_length_edge = Some PNone
   \<and> process_edge example_float_repr default_config 0 none_length_edge = Inl TypeError"
  by code_simp

text \<open>
  Claim C3, amended. For a processed edge, the stored speed is the resolved one; a positive
  speed gives the forward cost \<open>km / speed\<close>, the speed 0 gives \<open>km * 10\<close>; \<open>km\<close> is the
  length in meters divided by 1000, where the length in meters is the supplied one when it
  is present and not equal to zero, and the length of the geometry when the length column is
  missing or the supplied length equals zero and the geometry is usable (0 when the geometry
  is missing, empty, or its length cannot be read). A NaN length is kept, so that \<open>km\<close> and
  the forward cost are NaN; an edge whose length is \<^verbatim>\<open>None\<close> or a string is never
  processed.
\<close>

theorem forward_cost_by_speed:
  assumes "process_edge fr cfg idx row = Inr (Some e)"
    and "resolve_way_tags cfg (edge_tags row) = Inr (c, speed, fl)"
  shows "kmh e = speed
         \<and> (0 < speed \<longrightarrow> cost e = fdiv (km e) (real_of_int speed))
         \<and> (speed = 0 \<longrightarrow> cost e = fmul (km e) 10)
         \<and> truediv (length_m row) 1000 = Inr (km e)
         \<and> (\<forall>l. edge_length row = Some l \<and> \<not> eq_zero l \<longrightarrow> length_m row = l)
         \<and> (\<forall>g f. (edge_length row = None \<or> (\<exists>l. edge_length row = Some l \<and> eq_zero l))
                  \<and> geometry row = Some g \<and> \<not> g_is_empty g \<and> g_length g = Inr f \<longrightarrow>
                length_m row = PFloat f)
         \<and> (\<forall>g x. edge_length row = None \<and> geometry row = Some g \<and> \<not> g_is_empty g
                  \<and> g_length g = Inl x \<longrightarrow> length_m row = PInt 0)
         \<and> (edge_length row = None \<and> \<not> geometry_truthy row \<longrightarrow> length_m row = PInt 0)
         \<and> (edge_length row = Some (PFloat NaN) \<longrightarrow>
              length_m row = PFloat NaN \<and> km e = NaN \<and> cost e = NaN)
         \<and> edge_length row \<noteq> Some PNone
         \<and> (\<forall>s. edge_length row \<noteq> Some (PStr s))"
proof -
  from assms(1) obtain c' sp fl' kmv where
    e: "resolve_way_tags cfg (edge_tags row) = Inr (c', sp, fl')"
       "truediv (length_m row) 1000 = Inr kmv"
       "km e = kmv" "kmh e = sp" "cost e = forward_cost kmv sp"
    by (elim process_edge_SomeD)
  from e(1) assms(2) have sp: "sp = speed" by simp
  have 1: "kmh e = speed" using e sp by simp
  have 2: "0 < speed \<longrightarrow> cost e = fdiv (km e) (real_of_int speed)"
    using e sp by (simp add: forward_cost_def)
  have 3: "speed = 0 \<longrightarrow> cost e = fmul (km e) 10"
    using e sp by (simp add: forward_cost_def)
  have 4: "truediv (length_m row) 1000 = Inr (km e)" using e by simp
  have 5: "\<forall>l. edge_length row = Some l \<and> \<not> eq_zero l \<longrightarrow> length_m row = l"
    by (simp add: length_m_def)
  have 6: "\<forall>g f. (edge_length row = None \<or> (\<exists>l. edge_length row = Some l \<and> eq_zero l))
                  \<and> geometry row = Some g \<and> \<not> g_is_empty g \<and> g_length g = Inr f \<longrightarrow>
                length_m row = PFloat f"
    by (auto simp: length_m_def geometry_truthy_def)
  have 7: "\<forall>g x. edge_length row = None \<and> geometry row = Some g \<and> \<not> g_is_empty g
                  \<and> g_length g = Inl x \<longrightarrow> length_m row = PInt 0"
    by (auto simp: length_m_def geometry_truthy_def)
  have 8: "edge_length row = None \<and> \<not> geometry_truthy row \<longrightarrow> length_m row = PInt 0"
    by (simp add: length_m_def)
  have 9: "edge_length row = Some (PFloat NaN) \<longrightarrow>
              length_m row = PFloat NaN \<and> km e = NaN \<and> cost e = NaN"
  proof
    assume n: "edge_length row = Some (PFloat NaN)"
    then have l: "length_m row = PFloat NaN" by (simp add: length_m_def)
    with e(2) have "kmv = NaN" by simp
    with e l show "length_m row = PFloat NaN \<and> km e = NaN \<and> cost e = NaN"
      by (simp add: forward_cost_def)
  qed
  have 10: "edge_length row \<noteq> Some PNone"
  proof
    assume "edge_length row = Some PNone"
    then have "length_m row = PNone" by (simp add: length_m_def)
    with e(2) show False by simp
  qed
  have 11: "\<forall>s. edge_length row \<noteq> Some (PStr s)"
  proof (intro allI notI)
    fix s assume "edge_length row = Some (PStr s)"
    then have "length_m row = PStr s" by (simp add: length_m_def)
    with e(2) show False by simp
  qed
  from 1 2 3 4 5 6 7 8 9 10 11 show ?thesis by blast
qed

theorem forward_cost_by_speed_witness:
  "process_edge example_float_repr default_config 0 motorway_edge = Inr (Some motorway_processed)
   \<and> resolve_way_tags default_config (edge_tags motorway_edge) = Inr (11, 120, [''car''])
   \<and> cost motorway_processed = fdiv (km motorway_processed) (real_of_int 120)
   \<and> edge_length motorway_edge = Some (PInt 2000) \<and> \<not> eq_zero (PInt 2000)
   \<and> length_m motorway_edge = PInt 2000
   \<and> km motorway_processed = Fl 2
   \<and> process_edge example_float_repr track_config 7 track_edge = Inr (Some track_processed)
   \<and> resolve_way_tags track_config (edge_tags track_edge) = Inr (71, 0, [''bike'', ''foot''])
   \<and> cost track_processed = fmul (km track_processed) 10
   \<and> edge_length track_edge = None
   \<and> geometry track_edge = Some \<lparr>g_is_empty = False, g_length = Inr (Fl 350)\<rparr>
   \<and> length_m track_edge = PFloat (Fl 350)
   \<and> cost track_processed = Fl (7 / 2)
   \<and> process_edge example_float_repr default_config 0 nan_length_edge
       = Inr (Some nan_length_processed)
   \<and> edge_length nan_length_edge = Some (PFloat NaN)
   \<and> km nan_length_processed = NaN \<and> cost nan_length_processed = NaN"
proof -
  have a: "resolve_way_tags default_config (edge_tags motorway_edge) = Inr (11, 120, [''car''])"
    by code_simp
  have b: "resolve_way_tags track_config (edge_tags track_edge) = Inr (71, 0, [''bike'', ''foot''])"
    by code_simp
  have c: "edge_length motorway_edge = Some (PInt 2000) \<and> \<not> eq_zero (PInt 2000)"
    by (simp add: motorway_edge_def)
  have d: "edge_length track_edge = None"
    "geometry track_edge = Some \<lparr>g_is_empty = False, g_length = Inr (Fl 350)\<rparr>"
    "\<not> g_is_empty \<lparr>g_is_empty = False, g_length = Inr (Fl 350)\<rparr>"
    "g_length \<lparr>g_is_empty = False, g_length = Inr (Fl 350)\<rparr> = Inr (Fl 350)"
    by (simp_all add: track_edge_def)
  have e: "km motorway_processed = Fl 2" "cost track_processed = Fl (7 / 2)"
    by (simp_all add: motorway_processed_def track_processed_def raw_edge.defs
        processed_edge.defs)
  have f: "(0::int) < 120" by simp
  have g: "resolve_way_tags default_config (edge_tags nan_length_edge) = Inr (11, 120, [''car''])"
    by code_simp
  have h: "edge_length nan_length_edge = Some (PFloat NaN)"
    by (simp add: nan_length_edge_def motorway_edge_def)
  note m = forward_cost_by_speed[OF process_motorway_edge a]
  from m f have m1: "cost motorway_processed = fdiv (km motorway_processed) (real_of_int 120)"
    by blast
  from m c have m2: "length_m motorway_edge = PInt 2000"
    by blast
  note t = forward_cost_by_speed[OF process_track_edge b]
  from t have t1: "cost track_processed = fmul (km track_processed) 10"
    by blast
  from t d have t2: "length_m track_edge = PFloat (Fl 350)"
    by blast
  note n = forward_cost_by_speed[OF process_nan_length_edge g]
  from n h have n1: "km nan_length_processed = NaN \<and> cost nan_length_processed = NaN"
    by blast
  from process_motorway_edge process_track_edge process_nan_length_edge
    a b c d(1,2) e h m1 m2 t1 t2 n1
  show ?thesis by (intro conjI) (erule conjunct1 conjunct2 | assumption)+
qed

subsection \<open>The tag resolver\<close>

text \<open>
  Claim C4, as stated, fails: a tag bag whose \<^verbatim>\<open>highway\<close> value is a non-empty list holds
  no key of the rule table, and the membership test of the resolver raises \<^verbatim>\<open>TypeError\<close>
  on it (a list is not hashable).
\<close>

theorem resolve_way_tags_list_raises:
  "map_of [(''highway'', Ls [PStr ''bridleway'', PStr ''path''])] ''highway''
     = Some (Ls [PStr ''bridleway'', PStr ''path''])
   \<and> resolve_way_tags default_config [(''highway'', Ls [PStr ''bridleway'', PStr ''path''])]
     = Inl TypeError
   \<and> resolve_way_tags default_config [(''highway'', Ls [PStr ''bridleway'', PStr ''path''])]
     \<noteq> Inr (0, 0, [])"
  by (simp add: resolve_way_tags_def)

text \<open>
  Claim C4, amended. For every tag bag whose \<^verbatim>\<open>highway\<close> tag is missing, is an empty
  list, or is a scalar that is not a key of the rule table, the resolver returns class 0,
  speed 0 and no flags, without raising. Every edge that resolves to class 0 is skipped, and
  no record of the final list has class 0.
\<close>

theorem unclassified_edges_excluded:
  "(map_of tags_dict ''highway'' = None \<or> map_of tags_dict ''highway'' = Some (Ls [])
      \<or> (\<exists>s. map_of tags_dict ''highway'' = Some (Sc s)
              \<and> (\<forall>k. s = PStr k \<longrightarrow> map_of (way_tag_config cfg) k = None)) \<longrightarrow>
      resolve_way_tags cfg tags_dict = Inr (0, 0, []))
   \<and> (resolve_way_tags cfg (edge_tags row) = Inr (0, sp, fl) \<longrightarrow>
        process_edge fr cfg idx row = Inr None)
   \<and> (processed_edges_list fr cfg rows = Inr es \<longrightarrow> (\<forall>e\<in>set es. clazz e \<noteq> 0))"
proof (intro conjI impI)
  assume "map_of tags_dict ''highway'' = None \<or> map_of tags_dict ''highway'' = Some (Ls [])
      \<or> (\<exists>s. map_of tags_dict ''highway'' = Some (Sc s)
              \<and> (\<forall>k. s = PStr k \<longrightarrow> map_of (way_tag_config cfg) k = None))"
  then show "resolve_way_tags cfg tags_dict = Inr (0, 0, [])"
    by (auto simp: resolve_way_tags_def split: scalar.splits)
next
  assume "resolve_way_tags cfg (edge_tags row) = Inr (0, sp, fl)"
  then show "process_edge fr cfg idx row = Inr None"
    by (simp add: process_edge_def)
next
  assume "processed_edges_list fr cfg rows = Inr es"
  then show "\<forall>e\<in>set es. clazz e \<noteq> 0"
    using processed_edges_list_kept by blast
qed

theorem unclassified_edges_excluded_witness:
  "map_of (edge_tags unknown_edge) ''highway'' = Some (Sc (PStr ''bridleway''))
   \<and> map_of (way_tag_config default_config) ''bridleway'' = None
   \<and> resolve_way_tags default_config (edge_tags unknown_edge) = Inr (0, 0, [])
   \<and> process_edge example_float_repr default_config 0 unknown_edge = Inr None
   \<and> processed_edges_list example_float_repr default_config
        [(0, unknown_edge), (0, motorway_edge)] = Inr [motorway_processed]
   \<and> clazz motorway_processed \<noteq> 0"
proof -
  have a: "map_of (edge_tags unknown_edge) ''highway'' = Some (Sc (PStr ''bridleway''))"
    by code_simp
  have b: "map_of (way_tag_config default_config) ''bridleway'' = None"
    by code_simp
  have c: "processed_edges_list example_float_repr default_config
        [(0, unknown_edge), (0, motorway_edge)] = Inr [motorway_processed]"
    by code_simp
  have d: "\<exists>s. map_of (edge_tags unknown_edge) ''highway'' = Some (Sc s)
              \<and> (\<forall>k. s = PStr k \<longrightarrow> map_of (way_tag_config default_config) k = None)"
    using a b by simp
  from unclassified_edges_excluded[of "edge_tags unknown_edge" default_config unknown_edge 0 "[]"
      example_float_repr 0 "[(0, unknown_edge), (0, motorway_edge)]" "[motorway_processed]"]
    a b c d
  show ?thesis by simp
qed


subsection \<open>The insert statements\<close>










subsection \<open>The display name\<close>

lemma spec_read_body_other:
  "c \<noteq> CHR 0x27 \<Longrightarrow> xs \<noteq> [] \<Longrightarrow>
     spec_read_body (c # xs) = map_option ((#) c) (spec_read_body xs)"
  by (cases xs) simp_all

lemma replace_quote_Cons:
  "replace_quote (c # s) = (if c = CHR 0x27 then [CHR 0x27, CHR 0x27] else [c]) @ replace_quote s"
  by (simp add: replace_quote_def)

lemma spec_read_body_replace_quote:
  "spec_read_body (replace_quote s @ [CHR 0x27]) = Some s"
proof (induction s)
  case Nil
  then show ?case by (simp add: replace_quote_def)
next
  case (Cons c s)
  show ?case
  proof (cases "c = CHR 0x27")
    case True
    with Cons show ?thesis by (simp add: replace_quote_Cons)
  next
    case False
    with Cons show ?thesis by (simp add: replace_quote_Cons spec_read_body_other)
  qed
qed

lemma count_replace_quote:
  "count_list (replace_quote s) (CHR 0x27) = 2 * count_list s (CHR 0x27)"
  by (induction s) (simp_all add: replace_quote_Cons, simp add: replace_quote_def)

lemma filter_replace_quote:
  "filter (\<lambda>c. c \<noteq> CHR 0x27) (replace_quote s) = filter (\<lambda>c. c \<noteq> CHR 0x27) s"
  by (induction s) (simp_all add: replace_quote_Cons, simp add: replace_quote_def)

lemma strip_nonempty_iff: "strip s \<noteq> [] \<longleftrightarrow> (\<exists>c\<in>set s. \<not> isspace c)"
proof -
  have "dropWhile isspace (rev (dropWhile isspace s)) \<noteq> [] \<longleftrightarrow> dropWhile isspace s \<noteq> []"
  proof
    assume "dropWhile isspace s \<noteq> []"
    then have "\<not> isspace (hd (dropWhile isspace s))" by (rule hd_dropWhile)
    moreover have "hd (dropWhile isspace s) \<in> set (rev (dropWhile isspace s))"
      using \<open>dropWhile isspace s \<noteq> []\<close> by simp
    ultimately show "dropWhile isspace (rev (dropWhile isspace s)) \<noteq> []"
      by auto
  next
    assume "dropWhile isspace (rev (dropWhile isspace s)) \<noteq> []"
    then show "dropWhile isspace s \<noteq> []"
      by (cases "dropWhile isspace s") (simp_all del: dropWhile_eq_Nil_conv)
  qed
  then have "strip s \<noteq> [] \<longleftrightarrow> dropWhile isspace s \<noteq> []"
    by (simp add: strip_def)
  then show ?thesis by simp
qed

lemma final_name_named_edge:
  "final_name_for_sql example_float_repr named_edge = quoted ''King's Road''"
  by code_simp

lemma quoted_kings_road:
  "quoted ''King's Road'' = [CHR 0x27] @ ''King'' @ [CHR 0x27, CHR 0x27] @ ''s Road'' @ [CHR 0x27]"
  by code_simp

text \<open>
  Claim C8. The text of a name is written between single quotes with every single quote
  doubled and every other character unchanged, so that reading the literal back gives the
  text; a name and reference that are both null (\<^verbatim>\<open>None\<close> or NaN) give the unquoted
  \<^verbatim>\<open>NULL\<close>, which is no quoted literal, and nothing else is ever written.
\<close>

theorem quoted_text_round_trip:
  "spec_read_literal (quoted s) = Some s
   \<and> quoted s = [CHR 0x27] @ replace_quote s @ [CHR 0x27]
   \<and> count_list (replace_quote s) (CHR 0x27) = 2 * count_list s (CHR 0x27)
   \<and> filter (\<lambda>c. c \<noteq> CHR 0x27) (replace_quote s) = filter (\<lambda>c. c \<noteq> CHR 0x27) s
   \<and> (\<not> notna (osm_name_val row) \<and> \<not> notna (ref_val row) \<longrightarrow>
        final_name_for_sql fr row = ''NULL'')
   \<and> (final_name_for_sql fr row = ''NULL''
        \<or> final_name_for_sql fr row = quoted (py_str fr (osm_name_val row))
        \<or> final_name_for_sql fr row = quoted (py_str fr (ref_val row)))
   \<and> spec_read_literal ''NULL'' = None"
proof (intro conjI impI)
  show "spec_read_literal (quoted s) = Some s"
    by (simp add: spec_read_literal_def quoted_def spec_read_body_replace_quote)
  show "quoted s = [CHR 0x27] @ replace_quote s @ [CHR 0x27]"
    by (simp add: quoted_def)
  show "count_list (replace_quote s) (CHR 0x27) = 2 * count_list s (CHR 0x27)"
    by (rule count_replace_quote)
  show "filter (\<lambda>c. c \<noteq> CHR 0x27) (replace_quote s) = filter (\<lambda>c. c \<noteq> CHR 0x27) s"
    by (rule filter_replace_quote)
  show "final_name_for_sql fr row = ''NULL''"
    if "\<not> notna (osm_name_val row) \<and> \<not> notna (ref_val row)"
    using that by (simp add: final_name_for_sql_def)
  show "final_name_for_sql fr row = ''NULL''
        \<or> final_name_for_sql fr row = quoted (py_str fr (osm_name_val row))
        \<or> final_name_for_sql fr row = quoted (py_str fr (ref_val row))"
    by (simp add: final_name_for_sql_def)
  show "spec_read_literal ''NULL'' = None"
    by (simp add: spec_read_literal_def)
qed

theorem quoted_text_round_trip_witness:
  "final_name_for_sql example_float_repr named_edge = quoted ''King's Road''
   \<and> quoted ''King's Road''
       = [CHR 0x27] @ ''King'' @ [CHR 0x27, CHR 0x27] @ ''s Road'' @ [CHR 0x27]
   \<and> spec_read_literal (quoted ''King's Road'') = Some ''King's Road''
   \<and> \<not> notna (osm_name_val motorway_edge) \<and> \<not> notna (ref_val motorway_edge)
   \<and> final_name_for_sql example_float_repr motorway_edge = ''NULL''"
proof -
  have a: "\<not> notna (osm_name_val motorway_edge) \<and> \<not> notna (ref_val motorway_edge)"
    by (simp add: osm_name_val_def ref_val_def row_get_def motorway_edge_def)
  from quoted_text_round_trip[of "''King's Road''" motorway_edge example_float_repr]
    final_name_named_edge quoted_kings_road a
  show ?thesis by blast
qed

text \<open>
  Claim C9, as stated, fails: for the name \<^verbatim>\<open>" "\<close> (one blank, a non-empty string that
  is not null) and the reference \<^verbatim>\<open>"A1"\<close>, the display name is the quoted reference and
  not the quoted name.
\<close>

theorem blank_name_falls_back_to_ref:
  "osm_name_val blank_name_edge = PStr '' ''
   \<and> spec_nonempty example_float_repr (osm_name_val blank_name_edge)
   \<and> spec_display_name example_float_repr blank_name_edge = quoted '' ''
   \<and> final_name_for_sql example_float_repr blank_name_edge = quoted ''A1''
   \<and> final_name_for_sql example_float_repr blank_name_edge
       \<noteq> spec_display_name example_float_repr blank_name_edge"
  by code_simp

text \<open>
  Claim C9, amended. The display name is the quoted name when the name (the first element
  of a list, null for an empty list) is not null and its text holds a character that is
  not white space; else the quoted reference under the same test; else \<^verbatim>\<open>NULL\<close>. When
  neither text is non-empty and all white space, this is the display name of the
  specification.
\<close>

theorem display_name_first_non_blank:
  "final_name_for_sql fr row =
     (if notna (osm_name_val row) \<and> (\<exists>c\<in>set (py_str fr (osm_name_val row)). \<not> isspace c)
      then quoted (py_str fr (osm_name_val row))
      else if notna (ref_val row) \<and> (\<exists>c\<in>set (py_str fr (ref_val row)). \<not> isspace c)
      then quoted (py_str fr (ref_val row))
      else ''NULL'')
   \<and> (name row = None \<or> name row = Some (Ls []) \<longrightarrow> osm_name_val row = PNone)
   \<and> (\<forall>v. name row = Some (Sc v) \<longrightarrow> osm_name_val row = v)
   \<and> (\<forall>x xs. name row = Some (Ls (x # xs)) \<longrightarrow> osm_name_val row = x)
   \<and> (ref row = None \<or> ref row = Some (Ls []) \<longrightarrow> ref_val row = PNone)
   \<and> (\<forall>v. ref row = Some (Sc v) \<longrightarrow> ref_val row = v)
   \<and> (\<forall>x xs. ref row = Some (Ls (x # xs)) \<longrightarrow> ref_val row = x)
   \<and> ((strip (py_str fr (osm_name_val row)) = [] \<longrightarrow> py_str fr (osm_name_val row) = [])
        \<and> (strip (py_str fr (ref_val row)) = [] \<longrightarrow> py_str fr (ref_val row) = []) \<longrightarrow>
       final_name_for_sql fr row = spec_display_name fr row)"
proof (intro conjI)
  show "final_name_for_sql fr row =
     (if notna (osm_name_val row) \<and> (\<exists>c\<in>set (py_str fr (osm_name_val row)). \<not> isspace c)
      then quoted (py_str fr (osm_name_val row))
      else if notna (ref_val row) \<and> (\<exists>c\<in>set (py_str fr (ref_val row)). \<not> isspace c)
      then quoted (py_str fr (ref_val row))
      else ''NULL'')"
    unfolding final_name_for_sql_def strip_nonempty_iff by (rule refl)
  show "name row = None \<or> name row = Some (Ls []) \<longrightarrow> osm_name_val row = PNone"
    by (auto simp: osm_name_val_def row_get_def)
  show "\<forall>v. name row = Some (Sc v) \<longrightarrow> osm_name_val row = v"
    by (simp add: osm_name_val_def row_get_def)
  show "\<forall>x xs. name row = Some (Ls (x # xs)) \<longrightarrow> osm_name_val row = x"
    by (simp add: osm_name_val_def row_get_def)
  show "ref row = None \<or> ref row = Some (Ls []) \<longrightarrow> ref_val row = PNone"
    by (auto simp: ref_val_def row_get_def)
  show "\<forall>v. ref row = Some (Sc v) \<longrightarrow> ref_val row = v"
    by (simp add: ref_val_def row_get_def)
  show "\<forall>x xs. ref row = Some (Ls (x # xs)) \<longrightarrow> ref_val row = x"
    by (simp add: ref_val_def row_get_def)
  show "(strip (py_str fr (osm_name_val row)) = [] \<longrightarrow> py_str fr (osm_name_val row) = [])
        \<and> (strip (py_str fr (ref_val row)) = [] \<longrightarrow> py_str fr (ref_val row) = []) \<longrightarrow>
       final_name_for_sql fr row = spec_display_name fr row"
    by (auto simp: final_name_for_sql_def spec_display_name_def spec_nonempty_def strip_def)
qed

theorem display_name_first_non_blank_witness:
  "name named_edge = Some (Ls (PStr ''King's Road'' # [PStr ''A3'']))
   \<and> osm_name_val named_edge = PStr ''King's Road''
   \<and> notna (osm_name_val named_edge)
   \<and> (\<exists>c\<in>set (py_str example_float_repr (osm_name_val named_edge)). \<not> isspace c)
   \<and> final_name_for_sql example_float_repr named_edge
       = quoted (py_str example_float_repr (osm_name_val named_edge))
   \<and> final_name_for_sql example_float_repr blank_name_edge = quoted ''A1''"
proof -
  have a: "name named_edge = Some (Ls (PStr ''King's Road'' # [PStr ''A3'']))"
    by (simp add: named_edge_def motorway_edge_def)
  have b: "notna (osm_name_val named_edge)" by code_simp
  have c: "\<not> isspace (CHR ''K'')" by code_simp
  have d: "CHR ''K'' \<in> set (py_str example_float_repr (osm_name_val named_edge))"
    by (simp add: osm_name_val_def row_get_def named_edge_def motorway_edge_def)
  have e: "\<exists>c\<in>set (py_str example_float_repr (osm_name_val named_edge)). \<not> isspace c"
    using c d by blast
  have f: "final_name_for_sql example_float_repr blank_name_edge = quoted ''A1''"
    by code_simp
  from display_name_first_non_blank[of example_float_repr named_edge] a b e f
  show ?thesis by (metis (no_types, lifting))
qed


end
